theory Spec2Isabelle
  imports Main "HOL-Library.Sublist"
begin

section \<open>The configuration module of the OCR service (src/utils/config.py)\<close>

text \<open>
  The module declares constants and six small functions. Two of the functions read the
  outside world: \<^verbatim>\<open>get_test_image_path\<close> uses \<^verbatim>\<open>PROJECT_ROOT\<close>, which
  the module computes at load time from its own location, and
  \<^verbatim>\<open>check_required_files\<close> asks the operating system whether four paths exist.
  Both are made explicit here as an environment that every such function receives.

  Python's \<^verbatim>\<open>str\<close> is modelled as \<open>string\<close>. The two message literals with
  Chinese text are held as the UTF-8 bytes of the source file (which declares
  \<^verbatim>\<open>coding: utf-8\<close>); no function of the module looks inside them.
\<close>

subsection \<open>Python primitives the module uses\<close>

text \<open>\<^verbatim>\<open>str(n)\<close> for an \<^verbatim>\<open>int\<close>, as the f-strings of the module apply it.\<close>

definition digit_char :: "nat \<Rightarrow> char" where
  "digit_char d = ''0123456789'' ! d"

fun str_nat :: "nat \<Rightarrow> string" where
  "str_nat n = (if n < 10 then [digit_char n] else str_nat (n div 10) @ [digit_char (n mod 10)])"

declare str_nat.simps [simp del]

definition str_int :: "int \<Rightarrow> string" where
  "str_int i = (if i < 0 then CHR ''-'' # str_nat (nat (- i)) else str_nat (nat i))"

text \<open>\<^verbatim>\<open>s.startswith(p)\<close> and \<^verbatim>\<open>s.endswith(p)\<close>.\<close>

definition str_startswith :: "string \<Rightarrow> string \<Rightarrow> bool" where
  "str_startswith s p = (take (length p) s = p)"

definition str_endswith :: "string \<Rightarrow> string \<Rightarrow> bool" where
  "str_endswith s p = (length p \<le> length s \<and> drop (length s - length p) s = p)"

text \<open>\<^verbatim>\<open>sep.join(xs)\<close> on a list of strings.\<close>

fun str_join :: "string \<Rightarrow> string list \<Rightarrow> string" where
  "str_join s [] = []"
| "str_join s [x] = x"
| "str_join s (x # y # ys) = x @ s @ str_join s (y # ys)"

text \<open>
  \<^verbatim>\<open>os.path.join(a, *p)\<close> of \<^verbatim>\<open>posixpath\<close>: a component that starts with the
  separator discards everything before it; otherwise a separator is inserted unless the
  path so far is empty or already ends with one.
\<close>

definition sep :: string where
  "sep = ''/''"

definition join_component :: "string \<Rightarrow> string \<Rightarrow> string" where
  "join_component path b =
     (if str_startswith b sep then b
      else if path = [] \<or> str_endswith path sep then path @ b
      else path @ sep @ b)"

definition os_path_join :: "string \<Rightarrow> string list \<Rightarrow> string" where
  "os_path_join a p = foldl join_component a p"

text \<open>
  The exceptions \<^verbatim>\<open>os.stat\<close> raises on a \<^verbatim>\<open>str\<close> path: subclasses of
  \<^verbatim>\<open>OSError\<close> (the last constructor stands for every other errno) and of
  \<^verbatim>\<open>ValueError\<close> (an embedded null character, an unencodable name).
\<close>

datatype py_exception =
    FileNotFoundError
  | PermissionError
  | NotADirectoryError
  | OSError
  | ValueError
  | UnicodeEncodeError

fun is_OSError :: "py_exception \<Rightarrow> bool" where
  "is_OSError FileNotFoundError = True"
| "is_OSError PermissionError = True"
| "is_OSError NotADirectoryError = True"
| "is_OSError OSError = True"
| "is_OSError ValueError = False"
| "is_OSError UnicodeEncodeError = False"

fun is_ValueError :: "py_exception \<Rightarrow> bool" where
  "is_ValueError ValueError = True"
| "is_ValueError UnicodeEncodeError = True"
| "is_ValueError FileNotFoundError = False"
| "is_ValueError PermissionError = False"
| "is_ValueError NotADirectoryError = False"
| "is_ValueError OSError = False"

text \<open>What \<^verbatim>\<open>os.stat\<close> returns when it succeeds; the module never reads it.\<close>

datatype stat_result = StatResult

text \<open>
  The environment of a call: the value \<^verbatim>\<open>PROJECT_ROOT\<close> got at load time
  (\<^verbatim>\<open>os.path.dirname(os.path.abspath(__file__))\<close>), the current working
  directory of the process, and the file system as the outcome of \<^verbatim>\<open>os.stat\<close>
  on each absolute path.
\<close>

record environment =
  PROJECT_ROOT :: string
  cwd :: string
  file_system :: "string \<Rightarrow> py_exception + stat_result"

text \<open>\<^verbatim>\<open>os.stat(path)\<close>: the system resolves a relative path against the working directory.\<close>

definition os_stat :: "environment \<Rightarrow> string \<Rightarrow> py_exception + stat_result" where
  "os_stat env path = file_system env (os_path_join (cwd env) [path])"

text \<open>
  \<^verbatim>\<open>os.path.exists(path)\<close> (\<^verbatim>\<open>genericpath.exists\<close>):
  \<^verbatim>\<open>
  try:
      os.stat(path)
  except (OSError, ValueError):
      return False
  return True
  \<close>
\<close>

definition os_path_exists :: "environment \<Rightarrow> string \<Rightarrow> py_exception + bool" where
  "os_path_exists env path =
     (case os_stat env path of
        Inr st \<Rightarrow> Inr True
      | Inl e \<Rightarrow> if is_OSError e \<or> is_ValueError e then Inr False else Inl e)"

subsection \<open>The constants of the module\<close>

definition SERVER_HOST :: string where
  "SERVER_HOST = ''localhost''"

definition SERVER_PORT :: int where
  "SERVER_PORT = 8080"

definition SERVER_DEBUG :: bool where
  "SERVER_DEBUG = False"

definition API_BASE_URL :: string where
  "API_BASE_URL = ''http://'' @ SERVER_HOST @ '':'' @ str_int SERVER_PORT"

definition DET_MODEL_PATH :: string where
  "DET_MODEL_PATH = ''models/det.onnx''"

definition REC_MODEL_PATH :: string where
  "REC_MODEL_PATH = ''models/rec.onnx''"

definition OCR_KEYS_PATH :: string where
  "OCR_KEYS_PATH = ''models/ppocr_keys_v1.txt''"

definition FONT_PATH :: string where
  "FONT_PATH = ''assets/fonts/simfang.ttf''"

definition TEST_IMAGES_DIR :: string where
  "TEST_IMAGES_DIR = ''assets/images''"

definition TEST_IMAGES :: "string list" where
  "TEST_IMAGES = [''1.jpg'', ''11.jpg'', ''12.jpg'']"

text \<open>A float literal is kept as written: mantissa and decimal exponent (0.3 is 3, -1).\<close>

datatype py_float = FloatLit int int

definition DET_DB_THRESH :: py_float where
  "DET_DB_THRESH = FloatLit 3 (- 1)"

definition DET_DB_BOX_THRESH :: py_float where
  "DET_DB_BOX_THRESH = FloatLit 5 (- 1)"

definition MAX_CANDIDATES :: int where
  "MAX_CANDIDATES = 2000"

definition UNCLIP_RATIO :: py_float where
  "UNCLIP_RATIO = FloatLit 16 (- 1)"

definition USE_DILATION :: bool where
  "USE_DILATION = True"

definition DROP_SCORE :: py_float where
  "DROP_SCORE = FloatLit 5 (- 1)"

text \<open>The dictionary \<^verbatim>\<open>ENDPOINTS\<close>.\<close>

definition ENDPOINTS :: "string \<rightharpoonup> string" where
  "ENDPOINTS = map_of [(''ocr'', ''/ocr''), (''health'', ''/health''), (''info'', ''/'')]"

definition REQUIRED_FILES :: "string list" where
  "REQUIRED_FILES = [DET_MODEL_PATH, REC_MODEL_PATH, OCR_KEYS_PATH, FONT_PATH]"

subsection \<open>The functions of the module\<close>

definition get_test_image_path :: "environment \<Rightarrow> string \<Rightarrow> string" where
  "get_test_image_path env filename = os_path_join (PROJECT_ROOT env) [TEST_IMAGES_DIR, filename]"

definition get_test_images :: "environment \<Rightarrow> string list" where
  "get_test_images env = [get_test_image_path env img. img \<leftarrow> TEST_IMAGES]"

text \<open>\<^verbatim>\<open>ENDPOINTS.get(endpoint, endpoint)\<close> inside the f-string.\<close>

definition get_api_url :: "string \<Rightarrow> string" where
  "get_api_url endpoint =
     API_BASE_URL @ (case ENDPOINTS endpoint of Some path \<Rightarrow> path | None \<Rightarrow> endpoint)"

text \<open>
  The loop of \<^verbatim>\<open>check_required_files\<close>, with \<open>missing_files\<close> as its accumulator;
  an exception leaving \<^verbatim>\<open>os.path.exists\<close> would leave the loop.
\<close>

fun check_required_files_loop ::
  "environment \<Rightarrow> string list \<Rightarrow> string list \<Rightarrow> py_exception + string list" where
  "check_required_files_loop env missing_files [] = Inr missing_files"
| "check_required_files_loop env missing_files (file_path # rest) =
     (case os_path_exists env file_path of
        Inl e \<Rightarrow> Inl e
      | Inr found \<Rightarrow>
          check_required_files_loop env
            (if \<not> found then missing_files @ [file_path] else missing_files) rest)"

definition check_required_files :: "environment \<Rightarrow> py_exception + string list" where
  "check_required_files env = check_required_files_loop env [] REQUIRED_FILES"

text \<open>The two f-strings of \<^verbatim>\<open>validate_config\<close>.\<close>

definition port_range_message :: "int \<Rightarrow> string" where
  "port_range_message port =
     [CHR 0xE7, CHR 0xAB, CHR 0xAF, CHR 0xE5, CHR 0x8F, CHR 0xA3, CHR '' '']
     @ str_int port
     @ [CHR '' '', CHR 0xE4, CHR 0xB8, CHR 0x8D, CHR 0xE5, CHR 0x9C, CHR 0xA8, CHR 0xE6,
        CHR 0x9C, CHR 0x89, CHR 0xE6, CHR 0x95, CHR 0x88, CHR 0xE8, CHR 0x8C, CHR 0x83,
        CHR 0xE5, CHR 0x9B, CHR 0xB4, CHR 0xE5, CHR 0x86, CHR 0x85]
     @ '' (1024-65535)''"

definition missing_files_message :: "string list \<Rightarrow> string" where
  "missing_files_message missing_files =
     [CHR 0xE7, CHR 0xBC, CHR 0xBA, CHR 0xE5, CHR 0xB0, CHR 0x91, CHR 0xE5, CHR 0xBF,
      CHR 0x85, CHR 0xE9, CHR 0x9C, CHR 0x80, CHR 0xE6, CHR 0x96, CHR 0x87, CHR 0xE4,
      CHR 0xBB, CHR 0xB6]
     @ '': '' @ str_join '', '' missing_files"

text \<open>
  \<^verbatim>\<open>validate_config\<close> reads the global \<^verbatim>\<open>SERVER_PORT\<close> when it is called;
  \<open>validate_config_with\<close> is its body with that read as a parameter.
\<close>

definition validate_config_with :: "int \<Rightarrow> environment \<Rightarrow> py_exception + string list" where
  "validate_config_with port env =
     (let errors = [];
          errors = (if \<not> (1024 \<le> port \<and> port \<le> 65535)
                    then errors @ [port_range_message port] else errors)
      in case check_required_files env of
           Inl e \<Rightarrow> Inl e
         | Inr missing_files \<Rightarrow>
             Inr (if missing_files \<noteq> []
                  then errors @ [missing_files_message missing_files] else errors))"

definition validate_config :: "environment \<Rightarrow> py_exception + string list" where
  "validate_config env = validate_config_with SERVER_PORT env"

text \<open>
  \<^verbatim>\<open>get_config_info\<close> reads sixteen module globals each time it is called and
  returns a fresh dictionary. Module globals can be rebound and \<^verbatim>\<open>TEST_IMAGES\<close>
  is a list object that the returned dictionary refers to, not a copy. So the module is
  given a state here: the bindings of its globals, and a heap holding its list objects.
\<close>

type_synonym addr = nat

datatype py_value =
    PyStr string
  | PyInt int
  | PyBool bool
  | PyFloat py_float
  | PyRef addr
  | PyList "py_value list"
  | PyDict "(string \<times> py_value) list"

record module_state =
  globals :: "string \<rightharpoonup> py_value"
  heap :: "addr \<rightharpoonup> py_value list"

text \<open>
  The state after the top-level assignments of the module have run: each global bound to
  the value of its constant, \<^verbatim>\<open>TEST_IMAGES\<close> bound to the list object at address 0.
\<close>

definition loaded_module :: module_state where
  "loaded_module =
     \<lparr>globals = map_of [
        (''SERVER_HOST'', PyStr SERVER_HOST),
        (''SERVER_PORT'', PyInt SERVER_PORT),
        (''SERVER_DEBUG'', PyBool SERVER_DEBUG),
        (''API_BASE_URL'', PyStr API_BASE_URL),
        (''DET_MODEL_PATH'', PyStr DET_MODEL_PATH),
        (''REC_MODEL_PATH'', PyStr REC_MODEL_PATH),
        (''OCR_KEYS_PATH'', PyStr OCR_KEYS_PATH),
        (''FONT_PATH'', PyStr FONT_PATH),
        (''TEST_IMAGES_DIR'', PyStr TEST_IMAGES_DIR),
        (''TEST_IMAGES'', PyRef 0),
        (''DET_DB_THRESH'', PyFloat DET_DB_THRESH),
        (''DET_DB_BOX_THRESH'', PyFloat DET_DB_BOX_THRESH),
        (''MAX_CANDIDATES'', PyInt MAX_CANDIDATES),
        (''UNCLIP_RATIO'', PyFloat UNCLIP_RATIO),
        (''USE_DILATION'', PyBool USE_DILATION),
        (''DROP_SCORE'', PyFloat DROP_SCORE)],
      heap = [0 \<mapsto> map PyStr TEST_IMAGES]\<rparr>"

text \<open>Reading a global by name; an unbound name raises \<^verbatim>\<open>NameError\<close>.\<close>

datatype name_error = NameError string

definition load_global :: "module_state \<Rightarrow> string \<Rightarrow> name_error + py_value" where
  "load_global s name =
     (case globals s name of None \<Rightarrow> Inl (NameError name) | Some v \<Rightarrow> Inr v)"

text \<open>
  A dictionary display \<^verbatim>\<open>{key: NAME, ...}\<close>: the names are read in the order
  written, and the first unbound one ends the evaluation.
\<close>

fun dict_display :: "module_state \<Rightarrow> (string \<times> string) list \<Rightarrow> name_error + (string \<times> py_value) list" where
  "dict_display s [] = Inr []"
| "dict_display s ((key, name) # entries) =
     (case load_global s name of
        Inl e \<Rightarrow> Inl e
      | Inr v \<Rightarrow>
          (case dict_display s entries of
             Inl e \<Rightarrow> Inl e
           | Inr items \<Rightarrow> Inr ((key, v) # items)))"

text \<open>
  \<^verbatim>\<open>get_config_info\<close>: the outcome, and the module state the call leaves behind.
  The entry \<^verbatim>\<open>images\<close> receives what \<^verbatim>\<open>TEST_IMAGES\<close> is bound to, which
  is the reference to the list object.
\<close>

definition get_config_info :: "module_state \<Rightarrow> (name_error + py_value) \<times> module_state" where
  "get_config_info s =
     (case dict_display s [(''host'', ''SERVER_HOST''), (''port'', ''SERVER_PORT''),
             (''debug'', ''SERVER_DEBUG''), (''base_url'', ''API_BASE_URL'')] of
        Inl e \<Rightarrow> (Inl e, s)
      | Inr server \<Rightarrow>
     (case dict_display s [(''det_model'', ''DET_MODEL_PATH''), (''rec_model'', ''REC_MODEL_PATH''),
             (''ocr_keys'', ''OCR_KEYS_PATH''), (''font'', ''FONT_PATH'')] of
        Inl e \<Rightarrow> (Inl e, s)
      | Inr models \<Rightarrow>
     (case dict_display s [(''images_dir'', ''TEST_IMAGES_DIR''), (''images'', ''TEST_IMAGES'')] of
        Inl e \<Rightarrow> (Inl e, s)
      | Inr test \<Rightarrow>
     (case dict_display s [(''det_db_thresh'', ''DET_DB_THRESH''),
             (''det_db_box_thresh'', ''DET_DB_BOX_THRESH''),
             (''max_candidates'', ''MAX_CANDIDATES''), (''unclip_ratio'', ''UNCLIP_RATIO''),
             (''use_dilation'', ''USE_DILATION''), (''drop_score'', ''DROP_SCORE'')] of
        Inl e \<Rightarrow> (Inl e, s)
      | Inr ocr \<Rightarrow>
          (Inr (PyDict [(''server'', PyDict server), (''models'', PyDict models),
                        (''test'', PyDict test), (''ocr'', PyDict ocr)]), s)))))"

text \<open>
  What a value shows when it is read (printed, compared with \<^verbatim>\<open>==\<close>) in a heap:
  a reference stands for the current elements of its list object.
\<close>

fun contents :: "(addr \<rightharpoonup> py_value list) \<Rightarrow> py_value \<Rightarrow> py_value" where
  "contents h (PyRef a) = (case h a of None \<Rightarrow> PyRef a | Some xs \<Rightarrow> PyList xs)"
| "contents h (PyDict items) = PyDict (map (map_prod id (contents h)) items)"
| "contents h (PyList xs) = PyList (map (contents h) xs)"
| "contents h (PyStr x) = PyStr x"
| "contents h (PyInt i) = PyInt i"
| "contents h (PyBool b) = PyBool b"
| "contents h (PyFloat f) = PyFloat f"

text \<open>
  What a caller can do with the list it received: \<^verbatim>\<open>xs.append(v)\<close> on the list
  object at address \<open>a\<close>.
\<close>

definition list_append :: "module_state \<Rightarrow> addr \<Rightarrow> py_value \<Rightarrow> module_state" where
  "list_append s a v =
     (case heap s a of None \<Rightarrow> s | Some xs \<Rightarrow> s\<lparr>heap := (heap s)(a \<mapsto> xs @ [v])\<rparr>)"

text \<open>The globals \<^verbatim>\<open>get_config_info\<close> reads.\<close>

definition config_info_globals :: "string list" where
  "config_info_globals =
     [''SERVER_HOST'', ''SERVER_PORT'', ''SERVER_DEBUG'', ''API_BASE_URL'',
      ''DET_MODEL_PATH'', ''REC_MODEL_PATH'', ''OCR_KEYS_PATH'', ''FONT_PATH'',
      ''TEST_IMAGES_DIR'', ''TEST_IMAGES'',
      ''DET_DB_THRESH'', ''DET_DB_BOX_THRESH'', ''MAX_CANDIDATES'', ''UNCLIP_RATIO'',
      ''USE_DILATION'', ''DROP_SCORE'']"

subsection \<open>Example environments\<close>

text \<open>
  An installation under \<^verbatim>\<open>/opt/ocr\<close>, with the module at
  \<^verbatim>\<open>/opt/ocr/src/utils/config.py\<close>; \<open>disk present\<close> is a file system on which
  exactly the listed absolute paths exist.
\<close>

definition disk :: "string list \<Rightarrow> string \<Rightarrow> py_exception + stat_result" where
  "disk present path = (if path \<in> set present then Inr StatResult else Inl FileNotFoundError)"

definition deployed_files :: "string list" where
  "deployed_files =
     [''/opt/ocr/models/det.onnx'', ''/opt/ocr/models/rec.onnx'',
      ''/opt/ocr/models/ppocr_keys_v1.txt'', ''/opt/ocr/assets/fonts/simfang.ttf'']"

definition env_complete :: environment where
  "env_complete =
     \<lparr>PROJECT_ROOT = ''/opt/ocr/src/utils'', cwd = ''/opt/ocr'',
      file_system = disk deployed_files\<rparr>"


definition env_elsewhere :: environment where
  "env_elsewhere =
     \<lparr>PROJECT_ROOT = ''/opt/ocr/src/utils'', cwd = ''/tmp'',
      file_system = disk deployed_files\<rparr>"

definition env_denied :: environment where
  "env_denied =
     \<lparr>PROJECT_ROOT = ''/opt/ocr/src/utils'', cwd = ''/opt/ocr'',
      file_system = (\<lambda>path. if path = ''/opt/ocr/models/det.onnx'' then Inl PermissionError
                             else disk deployed_files path)\<rparr>"

definition env_other_layout :: environment where
  "env_other_layout =
     \<lparr>PROJECT_ROOT = ''/'', cwd = ''/srv/'',
      file_system = (\<lambda>path. if path = ''/srv/models/det.onnx'' then Inl NotADirectoryError
                             else disk [''/srv/models/rec.onnx'', ''/srv/models/ppocr_keys_v1.txt'',
                                        ''/srv/assets/fonts/simfang.ttf'', ''/srv/extra''] path)\<rparr>"

section \<open>Properties\<close>

subsection \<open>Auxiliary facts\<close>

lemma str_int_SERVER_PORT: "str_int SERVER_PORT = ''8080''"
  by (simp add: SERVER_PORT_def str_int_def str_nat.simps digit_char_def)

lemma API_BASE_URL_value: "API_BASE_URL = ''http://localhost:8080''"
  by (simp add: API_BASE_URL_def SERVER_HOST_def str_int_SERVER_PORT)

lemma str_startswith_sep: "str_startswith b sep = (b \<noteq> [] \<and> hd b = CHR ''/'')"
  by (cases b) (simp_all add: str_startswith_def sep_def)

lemma str_endswith_sep: "str_endswith path sep = (path \<noteq> [] \<and> last path = CHR ''/'')"
proof (cases path rule: rev_cases)
  case Nil
  then show ?thesis by (simp add: str_endswith_def sep_def)
next
  case (snoc ys y)
  then show ?thesis by (simp add: str_endswith_def sep_def)
qed

lemma caught_by_exists: "is_OSError e \<or> is_ValueError e"
  by (cases e) simp_all

lemma os_path_exists_Inr: "os_path_exists env path = Inr (\<not> isl (os_stat env path))"
  by (cases "os_stat env path") (simp_all add: os_path_exists_def caught_by_exists)

lemma check_required_files_loop_filter:
  "check_required_files_loop env acc ps = Inr (acc @ filter (\<lambda>p. isl (os_stat env p)) ps)"
  by (induction ps arbitrary: acc) (simp_all add: os_path_exists_Inr)

lemma check_required_files_filter:
  "check_required_files env = Inr (filter (\<lambda>p. isl (os_stat env p)) REQUIRED_FILES)"
  by (simp add: check_required_files_def check_required_files_loop_filter)

lemma validate_config_with_eq:
  "validate_config_with port env =
     Inr ((if 1024 \<le> port \<and> port \<le> 65535 then [] else [port_range_message port]) @
          (if filter (\<lambda>p. isl (os_stat env p)) REQUIRED_FILES = [] then []
           else [missing_files_message (filter (\<lambda>p. isl (os_stat env p)) REQUIRED_FILES)]))"
  by (simp add: validate_config_with_def check_required_files_filter)


lemma REQUIRED_FILES_value:
  "REQUIRED_FILES =
     [''models/det.onnx'', ''models/rec.onnx'', ''models/ppocr_keys_v1.txt'',
      ''assets/fonts/simfang.ttf'']"
  by (simp add: REQUIRED_FILES_def DET_MODEL_PATH_def REC_MODEL_PATH_def OCR_KEYS_PATH_def
      FONT_PATH_def)

lemma join_component_explicit:
  "join_component path b =
     (if b \<noteq> [] \<and> hd b = CHR ''/'' then b
      else if path = [] \<or> last path = CHR ''/'' then path @ b
      else path @ ''/'' @ b)"
  by (simp add: join_component_def str_startswith_sep str_endswith_sep) (simp add: sep_def)

lemma os_path_join_one: "os_path_join a [b] = join_component a b"
  by (simp add: os_path_join_def)

lemma os_path_join_two: "os_path_join a [b, c] = join_component (join_component a b) c"
  by (simp add: os_path_join_def)

text \<open>The required files that are reported missing in each example environment.\<close>

lemma missing_env_complete:
  "filter (\<lambda>p. isl (os_stat env_complete p)) REQUIRED_FILES = []"
  by (simp add: REQUIRED_FILES_value os_stat_def os_path_join_one join_component_explicit
      env_complete_def disk_def deployed_files_def)


lemma missing_env_elsewhere:
  "filter (\<lambda>p. isl (os_stat env_elsewhere p)) REQUIRED_FILES =
     [''models/det.onnx'', ''models/rec.onnx'', ''models/ppocr_keys_v1.txt'',
      ''assets/fonts/simfang.ttf'']"
  by (simp add: REQUIRED_FILES_value os_stat_def os_path_join_one join_component_explicit
      env_elsewhere_def disk_def deployed_files_def)

lemma missing_env_denied:
  "filter (\<lambda>p. isl (os_stat env_denied p)) REQUIRED_FILES = [''models/det.onnx'']"
  by (simp add: REQUIRED_FILES_value os_stat_def os_path_join_one join_component_explicit
      env_denied_def disk_def deployed_files_def)

lemma missing_env_other_layout:
  "filter (\<lambda>p. isl (os_stat env_other_layout p)) REQUIRED_FILES = [''models/det.onnx'']"
  by (simp add: REQUIRED_FILES_value os_stat_def os_path_join_one join_component_explicit
      env_other_layout_def disk_def)

text \<open>Facts about the module state and the snapshot.\<close>

lemma load_global_bound:
  "name \<in> dom (globals s) \<Longrightarrow> load_global s name = Inr (the (globals s name))"
  by (auto simp: load_global_def)

lemma dict_display_same_globals:
  "globals s' = globals s \<Longrightarrow> dict_display s' entries = dict_display s entries"
proof (induction entries)
  case Nil
  show ?case by simp
next
  case (Cons entry entries)
  obtain key name where entry: "entry = (key, name)"
    by (cases entry)
  from Cons.prems have "load_global s' name = load_global s name"
    by (simp add: load_global_def)
  with Cons entry show ?case by (simp cong: sum.case_cong)
qed

lemma get_config_info_state: "snd (get_config_info s) = s"
  by (simp add: get_config_info_def del: dict_display.simps split: sum.split)

lemma get_config_info_same_globals:
  "globals s' = globals s \<Longrightarrow> fst (get_config_info s') = fst (get_config_info s)"
  by (simp add: get_config_info_def dict_display_same_globals [of s' s]
      del: dict_display.simps split: sum.split)

lemma get_config_info_bound:
  assumes "set config_info_globals \<subseteq> dom (globals s)"
  shows "get_config_info s =
    (Inr (PyDict [
       (''server'', PyDict [
          (''host'', the (globals s ''SERVER_HOST'')),
          (''port'', the (globals s ''SERVER_PORT'')),
          (''debug'', the (globals s ''SERVER_DEBUG'')),
          (''base_url'', the (globals s ''API_BASE_URL''))]),
       (''models'', PyDict [
          (''det_model'', the (globals s ''DET_MODEL_PATH'')),
          (''rec_model'', the (globals s ''REC_MODEL_PATH'')),
          (''ocr_keys'', the (globals s ''OCR_KEYS_PATH'')),
          (''font'', the (globals s ''FONT_PATH''))]),
       (''test'', PyDict [
          (''images_dir'', the (globals s ''TEST_IMAGES_DIR'')),
          (''images'', the (globals s ''TEST_IMAGES''))]),
       (''ocr'', PyDict [
          (''det_db_thresh'', the (globals s ''DET_DB_THRESH'')),
          (''det_db_box_thresh'', the (globals s ''DET_DB_BOX_THRESH'')),
          (''max_candidates'', the (globals s ''MAX_CANDIDATES'')),
          (''unclip_ratio'', the (globals s ''UNCLIP_RATIO'')),
          (''use_dilation'', the (globals s ''USE_DILATION'')),
          (''drop_score'', the (globals s ''DROP_SCORE''))])]), s)"
proof -
  have "load_global s name = Inr (the (globals s name))" if "name \<in> set config_info_globals"
    for name
    using assms that by (intro load_global_bound) blast
  then have loads:
    "load_global s ''SERVER_HOST'' = Inr (the (globals s ''SERVER_HOST''))"
    "load_global s ''SERVER_PORT'' = Inr (the (globals s ''SERVER_PORT''))"
    "load_global s ''SERVER_DEBUG'' = Inr (the (globals s ''SERVER_DEBUG''))"
    "load_global s ''API_BASE_URL'' = Inr (the (globals s ''API_BASE_URL''))"
    "load_global s ''DET_MODEL_PATH'' = Inr (the (globals s ''DET_MODEL_PATH''))"
    "load_global s ''REC_MODEL_PATH'' = Inr (the (globals s ''REC_MODEL_PATH''))"
    "load_global s ''OCR_KEYS_PATH'' = Inr (the (globals s ''OCR_KEYS_PATH''))"
    "load_global s ''FONT_PATH'' = Inr (the (globals s ''FONT_PATH''))"
    "load_global s ''TEST_IMAGES_DIR'' = Inr (the (globals s ''TEST_IMAGES_DIR''))"
    "load_global s ''TEST_IMAGES'' = Inr (the (globals s ''TEST_IMAGES''))"
    "load_global s ''DET_DB_THRESH'' = Inr (the (globals s ''DET_DB_THRESH''))"
    "load_global s ''DET_DB_BOX_THRESH'' = Inr (the (globals s ''DET_DB_BOX_THRESH''))"
    "load_global s ''MAX_CANDIDATES'' = Inr (the (globals s ''MAX_CANDIDATES''))"
    "load_global s ''UNCLIP_RATIO'' = Inr (the (globals s ''UNCLIP_RATIO''))"
    "load_global s ''USE_DILATION'' = Inr (the (globals s ''USE_DILATION''))"
    "load_global s ''DROP_SCORE'' = Inr (the (globals s ''DROP_SCORE''))"
    by (simp_all add: config_info_globals_def)
  show ?thesis
    by (simp add: get_config_info_def loads)
qed

lemma loaded_module_bound: "set config_info_globals \<subseteq> dom (globals loaded_module)"
  by (simp add: config_info_globals_def loaded_module_def dom_map_of_conv_image_fst)

lemma list_append_globals: "globals (list_append s a v) = globals s"
  by (simp add: list_append_def split: option.splits)

subsection \<open>Validation of the configuration\<close>



subsection \<open>API URLs\<close>

text \<open>
  Claim C2. For every endpoint key \<^verbatim>\<open>get_api_url\<close> returns the base URL
  \<^verbatim>\<open>http://localhost:8080\<close> followed by the mapped path when the key is one of
  \<^verbatim>\<open>ocr\<close>, \<^verbatim>\<open>health\<close>, \<^verbatim>\<open>info\<close> (the keys of the endpoint map), and
  followed by the key itself, with nothing in between, otherwise; so \<^verbatim>\<open>health\<close>
  gives \<^verbatim>\<open>http://localhost:8080/health\<close> and \<^verbatim>\<open>unknown-key\<close> gives
  \<^verbatim>\<open>http://localhost:8080unknown-key\<close>. The function has a value on every string.
\<close>

theorem get_api_url_fallback:
  "get_api_url endpoint =
     ''http://localhost:8080'' @
       (case ENDPOINTS endpoint of Some path \<Rightarrow> path | None \<Rightarrow> endpoint)
   \<and> get_api_url endpoint =
       ''http://localhost:8080'' @
         (if endpoint = ''ocr'' then ''/ocr''
          else if endpoint = ''health'' then ''/health''
          else if endpoint = ''info'' then ''/''
          else endpoint)
   \<and> dom ENDPOINTS = {''ocr'', ''health'', ''info''}
   \<and> get_api_url ''health'' = ''http://localhost:8080/health''
   \<and> get_api_url ''unknown-key'' = ''http://localhost:8080unknown-key''"
proof -
  have base: "get_api_url k =
      ''http://localhost:8080'' @ (case ENDPOINTS k of Some path \<Rightarrow> path | None \<Rightarrow> k)" for k
    by (simp add: get_api_url_def API_BASE_URL_value)
  have keys: "dom ENDPOINTS = {''ocr'', ''health'', ''info''}"
    unfolding ENDPOINTS_def by (simp add: dom_map_of_conv_image_fst insert_commute)
  have explicit: "(case ENDPOINTS k of Some path \<Rightarrow> path | None \<Rightarrow> k) =
      (if k = ''ocr'' then ''/ocr'' else if k = ''health'' then ''/health''
       else if k = ''info'' then ''/'' else k)" for k
    by (simp add: ENDPOINTS_def)
  have health: "get_api_url ''health'' = ''http://localhost:8080/health''"
    unfolding base explicit by simp
  have unknown: "get_api_url ''unknown-key'' = ''http://localhost:8080unknown-key''"
    unfolding base explicit by simp
  show ?thesis
    using base [of endpoint] keys health unknown
    unfolding explicit [of endpoint] by (simp only: simp_thms)
qed

text \<open>The three mapped keys, and a key that falls back to itself.\<close>

theorem get_api_url_fallback_witness:
  "get_api_url ''ocr'' = ''http://localhost:8080/ocr''
   \<and> get_api_url ''info'' = ''http://localhost:8080/''
   \<and> get_api_url ''/v2/ocr'' = ''http://localhost:8080/v2/ocr''
   \<and> get_api_url [] = ''http://localhost:8080''"
proof -
  note explicit = get_api_url_fallback [THEN conjunct2, THEN conjunct1]
  show ?thesis
    using explicit [of "''ocr''"] explicit [of "''info''"] explicit [of "''/v2/ocr''"]
      explicit [of "[]"]
    by simp
qed

subsection \<open>Where the required files are looked for\<close>

text \<open>
  Claim C3, as stated, fails: the required paths are not resolved against a root of the
  installation. With the same module location and the same file system, on which all four
  files exist under \<^verbatim>\<open>/opt/ocr\<close>, \<^verbatim>\<open>check_required_files\<close> reports nothing
  missing when the process runs in \<^verbatim>\<open>/opt/ocr\<close> and reports all four missing when
  it runs in \<^verbatim>\<open>/tmp\<close>.
\<close>

theorem required_files_install_root_counterexample:
  "PROJECT_ROOT env_elsewhere = PROJECT_ROOT env_complete
   \<and> file_system env_elsewhere = file_system env_complete
   \<and> check_required_files env_complete = Inr []
   \<and> check_required_files env_elsewhere = Inr REQUIRED_FILES"
  by (simp add: check_required_files_filter missing_env_complete missing_env_elsewhere)
    (simp add: env_elsewhere_def env_complete_def REQUIRED_FILES_value)

text \<open>
  Claim C3, amended. The four required paths are relative (none starts with the
  separator) and \<^verbatim>\<open>check_required_files\<close> hands them unchanged to the existence
  check, so each is looked up under the current working directory of the process: the
  result lists the required paths whose join with the working directory cannot be
  stat'ed. \<^verbatim>\<open>PROJECT_ROOT\<close> plays no part in it.
\<close>

theorem required_files_resolved_against_cwd:
  "list_all (\<lambda>p. \<not> str_startswith p sep) REQUIRED_FILES
   \<and> check_required_files env =
       Inr (filter (\<lambda>p. isl (file_system env (os_path_join (cwd env) [p]))) REQUIRED_FILES)
   \<and> (\<forall>p \<in> set REQUIRED_FILES.
         os_path_join (cwd env) [p] =
           (if cwd env = [] \<or> str_endswith (cwd env) sep then cwd env @ p
            else cwd env @ sep @ p))
   \<and> check_required_files (env\<lparr>PROJECT_ROOT := root\<rparr>) = check_required_files env"
proof -
  have relative: "list_all (\<lambda>p. \<not> str_startswith p sep) REQUIRED_FILES"
    by (simp add: REQUIRED_FILES_value str_startswith_sep)
  have lookup: "check_required_files e =
      Inr (filter (\<lambda>p. isl (file_system e (os_path_join (cwd e) [p]))) REQUIRED_FILES)" for e
    using check_required_files_filter [of e] by (simp add: os_stat_def)
  have joined: "os_path_join (cwd env) [p] =
      (if cwd env = [] \<or> str_endswith (cwd env) sep then cwd env @ p else cwd env @ sep @ p)"
    if "p \<in> set REQUIRED_FILES" for p
  proof -
    from that relative have "\<not> str_startswith p sep"
      by (simp add: list_all_iff)
    then show ?thesis
      by (simp add: os_path_join_one join_component_def)
  qed
  have root_unused: "check_required_files (env\<lparr>PROJECT_ROOT := root\<rparr>) = check_required_files env"
    by (simp add: lookup)
  from relative lookup [of env] joined root_unused show ?thesis
    by blast
qed

text \<open>
  In the environment whose working directory is \<^verbatim>\<open>/tmp\<close> the font path is looked
  up as \<^verbatim>\<open>/tmp/assets/fonts/simfang.ttf\<close>, and moving \<^verbatim>\<open>PROJECT_ROOT\<close> to
  the directory that holds the files changes nothing.
\<close>

theorem required_files_resolved_against_cwd_witness:
  "os_path_join (cwd env_elsewhere) [''assets/fonts/simfang.ttf''] =
     ''/tmp/assets/fonts/simfang.ttf''
   \<and> ''assets/fonts/simfang.ttf'' \<in> set REQUIRED_FILES
   \<and> check_required_files (env_elsewhere\<lparr>PROJECT_ROOT := ''/opt/ocr''\<rparr>) =
       check_required_files env_elsewhere"
  using required_files_resolved_against_cwd [of env_elsewhere "''/opt/ocr''"]
  by (simp add: REQUIRED_FILES_value env_elsewhere_def str_endswith_sep) (simp add: sep_def)

subsection \<open>Totality of the checks\<close>

text \<open>
  Claim C4. \<^verbatim>\<open>check_required_files\<close> and \<^verbatim>\<open>validate_config\<close> never raise:
  in every environment, and for every port, each returns a list. A required path whose
  existence check cannot be performed (\<^verbatim>\<open>os.stat\<close> raises, for instance
  \<^verbatim>\<open>PermissionError\<close>) is taken as not existing and is listed among the missing
  files.
\<close>

theorem validation_never_raises:
  "(\<exists>missing. check_required_files env = Inr missing)
   \<and> (\<exists>errors. validate_config env = Inr errors)
   \<and> (\<exists>errors. validate_config_with port env = Inr errors)
   \<and> (\<forall>p \<in> set REQUIRED_FILES. \<forall>e. os_stat env p = Inl e \<longrightarrow>
         os_path_exists env p = Inr False
         \<and> (\<exists>missing. check_required_files env = Inr missing \<and> p \<in> set missing))"
proof -
  have "\<exists>missing. check_required_files env = Inr missing"
    by (simp add: check_required_files_filter)
  moreover have "\<exists>errors. validate_config_with q env = Inr errors" for q
    by (simp add: validate_config_with_eq)
  moreover have "\<exists>errors. validate_config env = Inr errors"
    by (simp add: validate_config_def validate_config_with_eq)
  moreover have "os_path_exists env p = Inr False
      \<and> (\<exists>missing. check_required_files env = Inr missing \<and> p \<in> set missing)"
    if "p \<in> set REQUIRED_FILES" and "os_stat env p = Inl e" for p e
    using that by (simp add: os_path_exists_Inr check_required_files_filter)
  ultimately show ?thesis by blast
qed

text \<open>
  Where \<^verbatim>\<open>os.stat\<close> on the detection model raises \<^verbatim>\<open>PermissionError\<close>, the
  model is reported missing and validation returns the one message that names it.
\<close>

theorem validation_never_raises_witness:
  "os_stat env_denied ''models/det.onnx'' = Inl PermissionError
   \<and> ''models/det.onnx'' \<in> set REQUIRED_FILES
   \<and> os_path_exists env_denied ''models/det.onnx'' = Inr False
   \<and> check_required_files env_denied = Inr [''models/det.onnx'']
   \<and> validate_config env_denied = Inr [missing_files_message [''models/det.onnx'']]"
proof -
  have stat: "os_stat env_denied ''models/det.onnx'' = Inl PermissionError"
    by (simp add: os_stat_def os_path_join_one join_component_explicit env_denied_def)
  have required: "''models/det.onnx'' \<in> set REQUIRED_FILES"
    by (simp add: REQUIRED_FILES_value)
  have listed: "check_required_files env_denied = Inr [''models/det.onnx'']"
    by (simp add: check_required_files_filter missing_env_denied)
  have message: "validate_config env_denied = Inr [missing_files_message [''models/det.onnx'']]"
    by (simp add: validate_config_def validate_config_with_eq SERVER_PORT_def missing_env_denied)
  from validation_never_raises [of env_denied 8080] required stat
  have "os_path_exists env_denied ''models/det.onnx'' = Inr False"
    by blast
  with stat required listed message show ?thesis by simp
qed

subsection \<open>Determinism of the file check\<close>

text \<open>
  Claim C5. \<^verbatim>\<open>check_required_files\<close> keeps nothing between calls: its result is a
  function of the existence state of the four required paths alone. Two calls made in
  environments in which each required path has the same existence outcome return the same
  list, whatever else differs between them; in particular two calls against an unchanged
  file system agree.
\<close>

theorem check_required_files_deterministic:
  "(\<forall>p \<in> set REQUIRED_FILES. os_path_exists env1 p = os_path_exists env2 p)
   \<Longrightarrow> check_required_files env1 = check_required_files env2"
proof -
  assume same: "\<forall>p \<in> set REQUIRED_FILES. os_path_exists env1 p = os_path_exists env2 p"
  have "isl (os_stat env1 p) = isl (os_stat env2 p)" if "p \<in> set REQUIRED_FILES" for p
    using same that by (simp add: os_path_exists_Inr)
  then have "filter (\<lambda>p. isl (os_stat env1 p)) REQUIRED_FILES =
      filter (\<lambda>p. isl (os_stat env2 p)) REQUIRED_FILES"
    by (intro filter_cong) simp_all
  then show ?thesis
    by (simp add: check_required_files_filter)
qed

text \<open>
  Two environments with different working directories, layouts and failure reasons, which
  agree on which required paths exist, yield the same list.
\<close>

theorem check_required_files_deterministic_witness:
  "list_all (\<lambda>p. os_path_exists env_denied p = os_path_exists env_other_layout p) REQUIRED_FILES
   \<and> cwd env_denied \<noteq> cwd env_other_layout
   \<and> check_required_files env_denied = check_required_files env_other_layout
   \<and> check_required_files env_other_layout = Inr [''models/det.onnx'']"
proof -
  have agree: "\<forall>p \<in> set REQUIRED_FILES.
      os_path_exists env_denied p = os_path_exists env_other_layout p"
    by (simp add: os_path_exists_Inr REQUIRED_FILES_value os_stat_def os_path_join_one
        join_component_explicit env_denied_def env_other_layout_def disk_def deployed_files_def)
  have dirs: "cwd env_denied \<noteq> cwd env_other_layout"
    by (simp add: env_denied_def env_other_layout_def)
  have listed: "check_required_files env_other_layout = Inr [''models/det.onnx'']"
    by (simp add: check_required_files_filter missing_env_other_layout)
  from check_required_files_deterministic [OF agree] agree dirs listed show ?thesis
    by (simp add: list_all_iff)
qed

subsection \<open>Shape of the results\<close>

text \<open>
  Claim C9. The list \<^verbatim>\<open>check_required_files\<close> returns holds only members of the
  four-element \<^verbatim>\<open>REQUIRED_FILES\<close>, is a subsequence of it (declared order kept)
  and has no duplicates; hence \<^verbatim>\<open>validate_config\<close> returns at most two messages,
  whatever the port.
\<close>

theorem check_required_files_subsequence:
  "\<exists>missing. check_required_files env = Inr missing
     \<and> set missing \<subseteq> set REQUIRED_FILES
     \<and> subseq missing REQUIRED_FILES
     \<and> distinct missing
     \<and> length REQUIRED_FILES = 4
     \<and> (\<exists>errors. validate_config_with port env = Inr errors \<and> length errors \<le> 2)
     \<and> (\<exists>errors. validate_config env = Inr errors \<and> length errors \<le> 2)"
proof -
  let ?missing = "filter (\<lambda>p. isl (os_stat env p)) REQUIRED_FILES"
  have four: "length REQUIRED_FILES = 4" and no_repeat: "distinct REQUIRED_FILES"
    by (simp_all add: REQUIRED_FILES_value)
  have "check_required_files env = Inr ?missing"
    by (rule check_required_files_filter)
  moreover have "set ?missing \<subseteq> set REQUIRED_FILES"
    by (rule filter_is_subset)
  moreover have "subseq ?missing REQUIRED_FILES"
    by (rule subseq_filter_left)
  moreover have "distinct ?missing"
    using no_repeat by (rule distinct_filter)
  moreover have "\<exists>errors. validate_config_with q env = Inr errors \<and> length errors \<le> 2" for q
    by (simp add: validate_config_with_eq)
  moreover have "\<exists>errors. validate_config env = Inr errors \<and> length errors \<le> 2"
    by (simp add: validate_config_def validate_config_with_eq)
  ultimately show ?thesis
    using four by blast
qed

text \<open>
  With the working directory elsewhere the list is all of \<^verbatim>\<open>REQUIRED_FILES\<close>, and
  at port 80 validation returns exactly two messages: the bound is reached.
\<close>

theorem check_required_files_subsequence_witness:
  "check_required_files env_elsewhere = Inr REQUIRED_FILES
   \<and> (\<exists>errors. validate_config_with 80 env_elsewhere = Inr errors \<and> length errors = 2)"
proof -
  from check_required_files_subsequence [of env_elsewhere 80]
  obtain errors where "validate_config_with 80 env_elsewhere = Inr errors"
    by blast
  moreover have "validate_config_with 80 env_elsewhere =
      Inr [port_range_message 80, missing_files_message REQUIRED_FILES]"
    by (simp add: validate_config_with_eq missing_env_elsewhere) (simp add: REQUIRED_FILES_value)
  moreover have "check_required_files env_elsewhere = Inr REQUIRED_FILES"
    by (simp add: check_required_files_filter missing_env_elsewhere) (simp add: REQUIRED_FILES_value)
  ultimately show ?thesis by auto
qed

subsection \<open>Test image paths\<close>

text \<open>
  Claim C6. \<^verbatim>\<open>get_test_images\<close> returns a list as long as \<^verbatim>\<open>TEST_IMAGES\<close>
  whose i-th element is \<^verbatim>\<open>get_test_image_path\<close> of the i-th file name, in the
  declared order.
\<close>

theorem get_test_images_elementwise:
  "length (get_test_images env) = length TEST_IMAGES
   \<and> (\<forall>i < length TEST_IMAGES.
         get_test_images env ! i = get_test_image_path env (TEST_IMAGES ! i))"
proof -
  have "get_test_images env = map (get_test_image_path env) TEST_IMAGES"
    by (simp add: get_test_images_def)
  then show ?thesis by simp
qed

text \<open>The three paths of the example installation, and its last element.\<close>

theorem get_test_images_elementwise_witness:
  "length TEST_IMAGES = 3
   \<and> get_test_images env_complete ! 2 = get_test_image_path env_complete ''12.jpg''
   \<and> get_test_images env_complete =
       [''/opt/ocr/src/utils/assets/images/1.jpg'', ''/opt/ocr/src/utils/assets/images/11.jpg'',
        ''/opt/ocr/src/utils/assets/images/12.jpg'']"
proof -
  have len: "length TEST_IMAGES = 3"
    by (simp add: TEST_IMAGES_def)
  have third: "TEST_IMAGES ! 2 = ''12.jpg''"
    by (simp add: TEST_IMAGES_def)
  have "(2::nat) < length TEST_IMAGES"
    by (simp add: len)
  with get_test_images_elementwise [of env_complete]
  have "get_test_images env_complete ! 2 = get_test_image_path env_complete (TEST_IMAGES ! 2)"
    by blast
  moreover have "get_test_images env_complete =
       [''/opt/ocr/src/utils/assets/images/1.jpg'', ''/opt/ocr/src/utils/assets/images/11.jpg'',
        ''/opt/ocr/src/utils/assets/images/12.jpg'']"
    by (simp add: get_test_images_def get_test_image_path_def TEST_IMAGES_def TEST_IMAGES_DIR_def
        os_path_join_two join_component_explicit env_complete_def)
  ultimately show ?thesis
    using len third by simp
qed

text \<open>
  Claim C7. For every file name of \<^verbatim>\<open>TEST_IMAGES\<close>,
  \<^verbatim>\<open>get_test_image_path\<close> returns the project root, the test-images directory and
  the file name, in that order, joined by the separator (a project root that already ends
  with the separator, such as the root directory, gets no second one). It consults neither
  the file system nor the working directory, and has a value for every input.
\<close>

theorem get_test_image_path_joined:
  "\<forall>filename \<in> set TEST_IMAGES.
     get_test_image_path env filename =
       (if PROJECT_ROOT env = [] \<or> last (PROJECT_ROOT env) = CHR ''/'' then PROJECT_ROOT env
        else PROJECT_ROOT env @ sep)
       @ TEST_IMAGES_DIR @ sep @ filename
     \<and> get_test_image_path (env\<lparr>cwd := dir, file_system := fs\<rparr>) filename =
         get_test_image_path env filename"
proof
  fix filename
  assume "filename \<in> set TEST_IMAGES"
  then have relative: "filename \<noteq> [] \<and> hd filename \<noteq> CHR ''/''"
    by (auto simp: TEST_IMAGES_def)
  have dir_relative: "TEST_IMAGES_DIR \<noteq> [] \<and> hd TEST_IMAGES_DIR \<noteq> CHR ''/''"
    by (simp add: TEST_IMAGES_DIR_def)
  have dir_open: "last TEST_IMAGES_DIR \<noteq> CHR ''/''"
    by (simp add: TEST_IMAGES_DIR_def)
  have first: "join_component (PROJECT_ROOT env) TEST_IMAGES_DIR =
      (if PROJECT_ROOT env = [] \<or> last (PROJECT_ROOT env) = CHR ''/'' then PROJECT_ROOT env
       else PROJECT_ROOT env @ sep) @ TEST_IMAGES_DIR"
    using dir_relative by (simp add: join_component_explicit sep_def)
  have second: "join_component (r @ TEST_IMAGES_DIR) filename =
      r @ TEST_IMAGES_DIR @ sep @ filename" for r
    using relative dir_relative dir_open by (simp add: join_component_explicit sep_def)
  have joined: "get_test_image_path env filename =
      (if PROJECT_ROOT env = [] \<or> last (PROJECT_ROOT env) = CHR ''/'' then PROJECT_ROOT env
       else PROJECT_ROOT env @ sep) @ TEST_IMAGES_DIR @ sep @ filename"
    unfolding get_test_image_path_def os_path_join_two first second by simp
  have unread: "get_test_image_path (env\<lparr>cwd := dir, file_system := fs\<rparr>) filename =
      get_test_image_path env filename"
    by (simp add: get_test_image_path_def)
  from joined unread
  show "get_test_image_path env filename =
       (if PROJECT_ROOT env = [] \<or> last (PROJECT_ROOT env) = CHR ''/'' then PROJECT_ROOT env
        else PROJECT_ROOT env @ sep)
       @ TEST_IMAGES_DIR @ sep @ filename
     \<and> get_test_image_path (env\<lparr>cwd := dir, file_system := fs\<rparr>) filename =
         get_test_image_path env filename"
    by (rule conjI)
qed

text \<open>
  The second test image under \<^verbatim>\<open>/opt/ocr/src/utils\<close>, on an empty disk as well;
  and the first one when the project root is the root directory.
\<close>

theorem get_test_image_path_joined_witness:
  "''11.jpg'' \<in> set TEST_IMAGES
   \<and> get_test_image_path env_complete ''11.jpg'' = ''/opt/ocr/src/utils/assets/images/11.jpg''
   \<and> get_test_image_path (env_complete\<lparr>cwd := ''/tmp'', file_system := disk []\<rparr>) ''11.jpg'' =
       ''/opt/ocr/src/utils/assets/images/11.jpg''
   \<and> get_test_image_path env_other_layout ''1.jpg'' = ''/assets/images/1.jpg''"
proof -
  have a: "''11.jpg'' \<in> set TEST_IMAGES" and b: "''1.jpg'' \<in> set TEST_IMAGES"
    by (simp_all add: TEST_IMAGES_def)
  from get_test_image_path_joined
      [where env = env_complete and dir = "''/tmp''" and fs = "disk []"] a
  have "get_test_image_path env_complete ''11.jpg'' =
       (if PROJECT_ROOT env_complete = [] \<or> last (PROJECT_ROOT env_complete) = CHR ''/''
        then PROJECT_ROOT env_complete else PROJECT_ROOT env_complete @ sep)
       @ TEST_IMAGES_DIR @ sep @ ''11.jpg''
     \<and> get_test_image_path (env_complete\<lparr>cwd := ''/tmp'', file_system := disk []\<rparr>) ''11.jpg'' =
         get_test_image_path env_complete ''11.jpg''"
    by (rule bspec)
  moreover from get_test_image_path_joined
      [where env = env_other_layout and dir = "''/tmp''" and fs = "disk []"] b
  have "get_test_image_path env_other_layout ''1.jpg'' =
       (if PROJECT_ROOT env_other_layout = [] \<or> last (PROJECT_ROOT env_other_layout) = CHR ''/''
        then PROJECT_ROOT env_other_layout else PROJECT_ROOT env_other_layout @ sep)
       @ TEST_IMAGES_DIR @ sep @ ''1.jpg''
     \<and> get_test_image_path (env_other_layout\<lparr>cwd := ''/tmp'', file_system := disk []\<rparr>) ''1.jpg'' =
         get_test_image_path env_other_layout ''1.jpg''"
    by (rule bspec)
  ultimately show ?thesis
    using a by (simp add: env_complete_def env_other_layout_def TEST_IMAGES_DIR_def sep_def)
qed

text \<open>
  Claim C10. A file name that is itself an absolute path (it starts with the separator)
  comes back unchanged from \<^verbatim>\<open>get_test_image_path\<close>: the join discards the project
  root and the test-images directory. So for inputs outside \<^verbatim>\<open>TEST_IMAGES\<close> the
  result need not lie under the project root.
\<close>

theorem get_test_image_path_absolute:
  "(str_startswith filename sep \<longrightarrow> get_test_image_path env filename = filename)
   \<and> (\<exists>e f. \<not> prefix (PROJECT_ROOT e) (get_test_image_path e f))"
proof
  show "str_startswith filename sep \<longrightarrow> get_test_image_path env filename = filename"
    by (simp add: get_test_image_path_def os_path_join_two join_component_def)
  have "\<not> prefix (PROJECT_ROOT env_complete) (get_test_image_path env_complete ''/etc/passwd'')"
    by (simp add: get_test_image_path_def os_path_join_two join_component_explicit
        env_complete_def)
  then show "\<exists>e f. \<not> prefix (PROJECT_ROOT e) (get_test_image_path e f)"
    by blast
qed

text \<open>An absolute file name, returned as it is and outside the project root.\<close>

theorem get_test_image_path_absolute_witness:
  "str_startswith ''/etc/passwd'' sep
   \<and> get_test_image_path env_complete ''/etc/passwd'' = ''/etc/passwd''
   \<and> \<not> prefix (PROJECT_ROOT env_complete) (get_test_image_path env_complete ''/etc/passwd'')"
proof -
  have absolute: "str_startswith ''/etc/passwd'' sep"
    by (simp add: str_startswith_sep)
  with get_test_image_path_absolute [of "''/etc/passwd''" env_complete]
  have same: "get_test_image_path env_complete ''/etc/passwd'' = ''/etc/passwd''"
    by blast
  have "\<not> prefix (PROJECT_ROOT env_complete) ''/etc/passwd''"
    by (simp add: env_complete_def)
  with absolute same show ?thesis by simp
qed

subsection \<open>The configuration snapshot\<close>

text \<open>
  Claim C8. \<^verbatim>\<open>get_config_info\<close> is pure, deterministic and always succeeds.
  A call leaves the module state (the bindings of the globals and the list objects) as it
  found it, whatever its outcome, so a second call made right after the first returns the
  same result. The result depends on the bindings of the globals only: calls made in states
  with the same bindings return equal values, also when a list object was changed in
  between. Where the sixteen globals it reads are bound, as they are once the module is
  loaded, the call succeeds and returns the dictionary of the four groups
  \<^verbatim>\<open>server\<close>, \<^verbatim>\<open>models\<close>, \<^verbatim>\<open>test\<close> and \<^verbatim>\<open>ocr\<close>, in this order,
  each entry holding what its global is bound to. For the loaded module this is the record
  of the module's constants.
\<close>

theorem get_config_info_pure_deterministic:
  "snd (get_config_info s) = s
   \<and> get_config_info (snd (get_config_info s)) = get_config_info s
   \<and> (globals s' = globals s \<longrightarrow> fst (get_config_info s') = fst (get_config_info s))
   \<and> (set config_info_globals \<subseteq> dom (globals s) \<longrightarrow>
        get_config_info s =
          (Inr (PyDict [
             (''server'', PyDict [
                (''host'', the (globals s ''SERVER_HOST'')),
                (''port'', the (globals s ''SERVER_PORT'')),
                (''debug'', the (globals s ''SERVER_DEBUG'')),
                (''base_url'', the (globals s ''API_BASE_URL''))]),
             (''models'', PyDict [
                (''det_model'', the (globals s ''DET_MODEL_PATH'')),
                (''rec_model'', the (globals s ''REC_MODEL_PATH'')),
                (''ocr_keys'', the (globals s ''OCR_KEYS_PATH'')),
                (''font'', the (globals s ''FONT_PATH''))]),
             (''test'', PyDict [
                (''images_dir'', the (globals s ''TEST_IMAGES_DIR'')),
                (''images'', the (globals s ''TEST_IMAGES''))]),
             (''ocr'', PyDict [
                (''det_db_thresh'', the (globals s ''DET_DB_THRESH'')),
                (''det_db_box_thresh'', the (globals s ''DET_DB_BOX_THRESH'')),
                (''max_candidates'', the (globals s ''MAX_CANDIDATES'')),
                (''unclip_ratio'', the (globals s ''UNCLIP_RATIO'')),
                (''use_dilation'', the (globals s ''USE_DILATION'')),
                (''drop_score'', the (globals s ''DROP_SCORE''))])]), s))
   \<and> (\<exists>v. get_config_info loaded_module = (Inr v, loaded_module)
          \<and> contents (heap loaded_module) v =
              PyDict [
                (''server'', PyDict [
                   (''host'', PyStr ''localhost''),
                   (''port'', PyInt 8080),
                   (''debug'', PyBool False),
                   (''base_url'', PyStr ''http://localhost:8080'')]),
                (''models'', PyDict [
                   (''det_model'', PyStr ''models/det.onnx''),
                   (''rec_model'', PyStr ''models/rec.onnx''),
                   (''ocr_keys'', PyStr ''models/ppocr_keys_v1.txt''),
                   (''font'', PyStr ''assets/fonts/simfang.ttf'')]),
                (''test'', PyDict [
                   (''images_dir'', PyStr ''assets/images''),
                   (''images'', PyList [PyStr ''1.jpg'', PyStr ''11.jpg'', PyStr ''12.jpg''])]),
                (''ocr'', PyDict [
                   (''det_db_thresh'', PyFloat (FloatLit 3 (- 1))),
                   (''det_db_box_thresh'', PyFloat (FloatLit 5 (- 1))),
                   (''max_candidates'', PyInt 2000),
                   (''unclip_ratio'', PyFloat (FloatLit 16 (- 1))),
                   (''use_dilation'', PyBool True),
                   (''drop_score'', PyFloat (FloatLit 5 (- 1)))])])"
proof (intro conjI impI)
  show unchanged: "snd (get_config_info s) = s"
    by (rule get_config_info_state)
  show "get_config_info (snd (get_config_info s)) = get_config_info s"
    by (simp only: unchanged)
  show "fst (get_config_info s') = fst (get_config_info s)" if "globals s' = globals s"
    using that by (rule get_config_info_same_globals)
  show "get_config_info s =
          (Inr (PyDict [
             (''server'', PyDict [
                (''host'', the (globals s ''SERVER_HOST'')),
                (''port'', the (globals s ''SERVER_PORT'')),
                (''debug'', the (globals s ''SERVER_DEBUG'')),
                (''base_url'', the (globals s ''API_BASE_URL''))]),
             (''models'', PyDict [
                (''det_model'', the (globals s ''DET_MODEL_PATH'')),
                (''rec_model'', the (globals s ''REC_MODEL_PATH'')),
                (''ocr_keys'', the (globals s ''OCR_KEYS_PATH'')),
                (''font'', the (globals s ''FONT_PATH''))]),
             (''test'', PyDict [
                (''images_dir'', the (globals s ''TEST_IMAGES_DIR'')),
                (''images'', the (globals s ''TEST_IMAGES''))]),
             (''ocr'', PyDict [
                (''det_db_thresh'', the (globals s ''DET_DB_THRESH'')),
                (''det_db_box_thresh'', the (globals s ''DET_DB_BOX_THRESH'')),
                (''max_candidates'', the (globals s ''MAX_CANDIDATES'')),
                (''unclip_ratio'', the (globals s ''UNCLIP_RATIO'')),
                (''use_dilation'', the (globals s ''USE_DILATION'')),
                (''drop_score'', the (globals s ''DROP_SCORE''))])]), s)"
    if "set config_info_globals \<subseteq> dom (globals s)"
    using that by (rule get_config_info_bound)
  have server: "SERVER_HOST = ''localhost''" "SERVER_PORT = 8080" "SERVER_DEBUG = False"
    by (simp_all add: SERVER_HOST_def SERVER_PORT_def SERVER_DEBUG_def)
  have models: "DET_MODEL_PATH = ''models/det.onnx''" "REC_MODEL_PATH = ''models/rec.onnx''"
    "OCR_KEYS_PATH = ''models/ppocr_keys_v1.txt''" "FONT_PATH = ''assets/fonts/simfang.ttf''"
    by (simp_all add: DET_MODEL_PATH_def REC_MODEL_PATH_def OCR_KEYS_PATH_def FONT_PATH_def)
  have images: "TEST_IMAGES_DIR = ''assets/images''"
    "map PyStr TEST_IMAGES = [PyStr ''1.jpg'', PyStr ''11.jpg'', PyStr ''12.jpg'']"
    by (simp_all add: TEST_IMAGES_DIR_def TEST_IMAGES_def)
  have ocr: "DET_DB_THRESH = FloatLit 3 (- 1)" "DET_DB_BOX_THRESH = FloatLit 5 (- 1)"
    "MAX_CANDIDATES = 2000" "UNCLIP_RATIO = FloatLit 16 (- 1)" "USE_DILATION = True"
    "DROP_SCORE = FloatLit 5 (- 1)"
    by (simp_all add: DET_DB_THRESH_def DET_DB_BOX_THRESH_def MAX_CANDIDATES_def
        UNCLIP_RATIO_def USE_DILATION_def DROP_SCORE_def)
  show "\<exists>v. get_config_info loaded_module = (Inr v, loaded_module)
          \<and> contents (heap loaded_module) v =
              PyDict [
                (''server'', PyDict [
                   (''host'', PyStr ''localhost''),
                   (''port'', PyInt 8080),
                   (''debug'', PyBool False),
                   (''base_url'', PyStr ''http://localhost:8080'')]),
                (''models'', PyDict [
                   (''det_model'', PyStr ''models/det.onnx''),
                   (''rec_model'', PyStr ''models/rec.onnx''),
                   (''ocr_keys'', PyStr ''models/ppocr_keys_v1.txt''),
                   (''font'', PyStr ''assets/fonts/simfang.ttf'')]),
                (''test'', PyDict [
                   (''images_dir'', PyStr ''assets/images''),
                   (''images'', PyList [PyStr ''1.jpg'', PyStr ''11.jpg'', PyStr ''12.jpg''])]),
                (''ocr'', PyDict [
                   (''det_db_thresh'', PyFloat (FloatLit 3 (- 1))),
                   (''det_db_box_thresh'', PyFloat (FloatLit 5 (- 1))),
                   (''max_candidates'', PyInt 2000),
                   (''unclip_ratio'', PyFloat (FloatLit 16 (- 1))),
                   (''use_dilation'', PyBool True),
                   (''drop_score'', PyFloat (FloatLit 5 (- 1)))])]"
    unfolding get_config_info_bound [OF loaded_module_bound]
    by (simp add: loaded_module_def server models images ocr API_BASE_URL_value)
qed

text \<open>
  The loaded module: the call succeeds, leaves the state alone, and its
  \<^verbatim>\<open>images\<close> entry is the reference to the list object of
  \<^verbatim>\<open>TEST_IMAGES\<close>. After a caller has appended a name to that list, the next
  call returns an equal value; read in the heap of that moment, the list shows four names.
\<close>

theorem get_config_info_pure_deterministic_witness:
  "set config_info_globals \<subseteq> dom (globals loaded_module)
   \<and> globals (list_append loaded_module 0 (PyStr ''13.jpg'')) = globals loaded_module
   \<and> fst (get_config_info (list_append loaded_module 0 (PyStr ''13.jpg''))) =
       fst (get_config_info loaded_module)
   \<and> get_config_info loaded_module =
       (Inr (PyDict [
          (''server'', PyDict [
             (''host'', PyStr ''localhost''),
             (''port'', PyInt 8080),
             (''debug'', PyBool False),
             (''base_url'', PyStr ''http://localhost:8080'')]),
          (''models'', PyDict [
             (''det_model'', PyStr ''models/det.onnx''),
             (''rec_model'', PyStr ''models/rec.onnx''),
             (''ocr_keys'', PyStr ''models/ppocr_keys_v1.txt''),
             (''font'', PyStr ''assets/fonts/simfang.ttf'')]),
          (''test'', PyDict [
             (''images_dir'', PyStr ''assets/images''),
             (''images'', PyRef 0)]),
          (''ocr'', PyDict [
             (''det_db_thresh'', PyFloat (FloatLit 3 (- 1))),
             (''det_db_box_thresh'', PyFloat (FloatLit 5 (- 1))),
             (''max_candidates'', PyInt 2000),
             (''unclip_ratio'', PyFloat (FloatLit 16 (- 1))),
             (''use_dilation'', PyBool True),
             (''drop_score'', PyFloat (FloatLit 5 (- 1)))])]), loaded_module)
   \<and> contents (heap (list_append loaded_module 0 (PyStr ''13.jpg''))) (PyRef 0) =
       PyList [PyStr ''1.jpg'', PyStr ''11.jpg'', PyStr ''12.jpg'', PyStr ''13.jpg'']"
proof -
  note same_bindings = get_config_info_pure_deterministic
    [THEN conjunct2, THEN conjunct2, THEN conjunct1]
  note assembled = get_config_info_pure_deterministic
    [THEN conjunct2, THEN conjunct2, THEN conjunct2, THEN conjunct1]
  have bound: "set config_info_globals \<subseteq> dom (globals loaded_module)"
    by (rule loaded_module_bound)
  have bindings: "globals (list_append loaded_module 0 (PyStr ''13.jpg'')) = globals loaded_module"
    by (rule list_append_globals)
  from same_bindings [of "list_append loaded_module 0 (PyStr ''13.jpg'')" loaded_module] bindings
  have equal: "fst (get_config_info (list_append loaded_module 0 (PyStr ''13.jpg''))) =
      fst (get_config_info loaded_module)"
    by (rule mp)
  from assembled [of loaded_module] bound
  have "get_config_info loaded_module =
          (Inr (PyDict [
             (''server'', PyDict [
                (''host'', the (globals loaded_module ''SERVER_HOST'')),
                (''port'', the (globals loaded_module ''SERVER_PORT'')),
                (''debug'', the (globals loaded_module ''SERVER_DEBUG'')),
                (''base_url'', the (globals loaded_module ''API_BASE_URL''))]),
             (''models'', PyDict [
                (''det_model'', the (globals loaded_module ''DET_MODEL_PATH'')),
                (''rec_model'', the (globals loaded_module ''REC_MODEL_PATH'')),
                (''ocr_keys'', the (globals loaded_module ''OCR_KEYS_PATH'')),
                (''font'', the (globals loaded_module ''FONT_PATH''))]),
             (''test'', PyDict [
                (''images_dir'', the (globals loaded_module ''TEST_IMAGES_DIR'')),
                (''images'', the (globals loaded_module ''TEST_IMAGES''))]),
             (''ocr'', PyDict [
                (''det_db_thresh'', the (globals loaded_module ''DET_DB_THRESH'')),
                (''det_db_box_thresh'', the (globals loaded_module ''DET_DB_BOX_THRESH'')),
                (''max_candidates'', the (globals loaded_module ''MAX_CANDIDATES'')),
                (''unclip_ratio'', the (globals loaded_module ''UNCLIP_RATIO'')),
                (''use_dilation'', the (globals loaded_module ''USE_DILATION'')),
                (''drop_score'', the (globals loaded_module ''DROP_SCORE''))])]), loaded_module)"
    by (rule mp)
  then have snapshot: "get_config_info loaded_module =
       (Inr (PyDict [
          (''server'', PyDict [
             (''host'', PyStr ''localhost''),
             (''port'', PyInt 8080),
             (''debug'', PyBool False),
             (''base_url'', PyStr ''http://localhost:8080'')]),
          (''models'', PyDict [
             (''det_model'', PyStr ''models/det.onnx''),
             (''rec_model'', PyStr ''models/rec.onnx''),
             (''ocr_keys'', PyStr ''models/ppocr_keys_v1.txt''),
             (''font'', PyStr ''assets/fonts/simfang.ttf'')]),
          (''test'', PyDict [
             (''images_dir'', PyStr ''assets/images''),
             (''images'', PyRef 0)]),
          (''ocr'', PyDict [
             (''det_db_thresh'', PyFloat (FloatLit 3 (- 1))),
             (''det_db_box_thresh'', PyFloat (FloatLit 5 (- 1))),
             (''max_candidates'', PyInt 2000),
             (''unclip_ratio'', PyFloat (FloatLit 16 (- 1))),
             (''use_dilation'', PyBool True),
             (''drop_score'', PyFloat (FloatLit 5 (- 1)))])]), loaded_module)"
    by (simp add: loaded_module_def API_BASE_URL_value SERVER_HOST_def
        SERVER_PORT_def SERVER_DEBUG_def DET_MODEL_PATH_def REC_MODEL_PATH_def OCR_KEYS_PATH_def
        FONT_PATH_def TEST_IMAGES_DIR_def DET_DB_THRESH_def DET_DB_BOX_THRESH_def
        MAX_CANDIDATES_def UNCLIP_RATIO_def USE_DILATION_def DROP_SCORE_def)
  have appended: "contents (heap (list_append loaded_module 0 (PyStr ''13.jpg''))) (PyRef 0) =
       PyList [PyStr ''1.jpg'', PyStr ''11.jpg'', PyStr ''12.jpg'', PyStr ''13.jpg'']"
    by (simp add: list_append_def loaded_module_def TEST_IMAGES_def)
  from bound bindings equal snapshot appended show ?thesis
    by (simp only: simp_thms)
qed

end
